theory Spec2Isabelle
  imports Complex_Main
begin

section \<open>Values: Python scalars, rasters and exceptions\<close>

text \<open>
  The module \<^verbatim>\<open>flame_components_arcgisRaster.py\<close> computes with Python floats and
  with arcpy rasters. Floats are idealised as reals. A raster is a grid of cells over a
  fixed, shared set of positions; a cell holds a number or NoData (\<open>None\<close>). The Python
  value \<^verbatim>\<open>None\<close>, the default of every optional argument, is \<open>PyNone\<close>.
  A Python \<^verbatim>\<open>bool\<close> is the number 1 or 0, as in Python itself.
\<close>

type_synonym cell = "real option"

type_synonym pos = "nat \<times> nat"

type_synonym grid = "pos \<Rightarrow> cell"

datatype val = PyNone | Num real | Ras grid

text \<open>
  Every \<^verbatim>\<open>raise Exception('...')\<close> of the module is \<open>PyException\<close> with its message;
  the other constructors are the built-in exceptions that Python and arcpy raise on
  their own.
\<close>

datatype pyerror = PyException string | TypeError | ValueError | ZeroDivisionError | IndexError

type_synonym res = "pyerror + val"

text \<open>Statement sequencing: an exception in the first computation ends the call.\<close>

definition bind :: "pyerror + 'a \<Rightarrow> ('a \<Rightarrow> pyerror + 'b) \<Rightarrow> pyerror + 'b" where
  "bind m k = (case m of Inl e \<Rightarrow> Inl e | Inr x \<Rightarrow> k x)"

text \<open>Operands are evaluated left to right before the operation is applied.\<close>

definition lift1 :: "(val \<Rightarrow> res) \<Rightarrow> res \<Rightarrow> res" where
  "lift1 f a = bind a f"

definition lift2 :: "(val \<Rightarrow> val \<Rightarrow> res) \<Rightarrow> res \<Rightarrow> res \<Rightarrow> res" where
  "lift2 f a b = bind a (\<lambda>x. bind b (\<lambda>y. f x y))"

definition num :: "real \<Rightarrow> res" where
  "num x = Inr (Num x)"

text \<open>
  The cells a value stands for: a number used where a raster is expected is the constant
  raster (arcpy's \<^verbatim>\<open>in_raster_or_constant\<close>).
\<close>

fun cells :: "val \<Rightarrow> grid option" where
  "cells PyNone = None"
| "cells (Num x) = Some (\<lambda>p. Some x)"
| "cells (Ras g) = Some g"

definition cell_at :: "val \<Rightarrow> pos \<Rightarrow> cell" where
  "cell_at v p = (case cells v of None \<Rightarrow> None | Some g \<Rightarrow> g p)"

subsection \<open>Python operators\<close>

text \<open>
  An arithmetic operator between two floats is a float (division by zero raises
  \<^verbatim>\<open>ZeroDivisionError\<close>); as soon as one operand is a raster the result is a raster,
  computed cell by cell, with NoData where an operand is NoData or the cell operation is
  undefined. \<^verbatim>\<open>None\<close> as an operand raises \<^verbatim>\<open>TypeError\<close>.
\<close>

definition cell2 :: "(real \<Rightarrow> real \<Rightarrow> cell) \<Rightarrow> cell \<Rightarrow> cell \<Rightarrow> cell" where
  "cell2 f a b = (case a of None \<Rightarrow> None | Some x \<Rightarrow> (case b of None \<Rightarrow> None | Some y \<Rightarrow> f x y))"

definition cell1 :: "(real \<Rightarrow> cell) \<Rightarrow> cell \<Rightarrow> cell" where
  "cell1 f a = (case a of None \<Rightarrow> None | Some x \<Rightarrow> f x)"

fun arith :: "(real \<Rightarrow> real \<Rightarrow> cell) \<Rightarrow> pyerror \<Rightarrow> val \<Rightarrow> val \<Rightarrow> res" where
  "arith f err (Num x) (Num y) = (case f x y of None \<Rightarrow> Inl err | Some z \<Rightarrow> Inr (Num z))"
| "arith f err (Num x) (Ras h) = Inr (Ras (\<lambda>p. cell2 f (Some x) (h p)))"
| "arith f err (Ras g) (Num y) = Inr (Ras (\<lambda>p. cell2 f (g p) (Some y)))"
| "arith f err (Ras g) (Ras h) = Inr (Ras (\<lambda>p. cell2 f (g p) (h p)))"
| "arith f err PyNone b = Inl TypeError"
| "arith f err a PyNone = Inl TypeError"

definition div_cell :: "real \<Rightarrow> real \<Rightarrow> cell" where
  "div_cell x y = (if y = 0 then None else Some (x / y))"

definition py_add :: "res \<Rightarrow> res \<Rightarrow> res" where
  "py_add = lift2 (arith (\<lambda>x y. Some (x + y)) TypeError)"

definition py_sub :: "res \<Rightarrow> res \<Rightarrow> res" where
  "py_sub = lift2 (arith (\<lambda>x y. Some (x - y)) TypeError)"

definition py_mul :: "res \<Rightarrow> res \<Rightarrow> res" where
  "py_mul = lift2 (arith (\<lambda>x y. Some (x * y)) TypeError)"

definition py_div :: "res \<Rightarrow> res \<Rightarrow> res" where
  "py_div = lift2 (arith div_cell ZeroDivisionError)"

definition truthval :: "bool \<Rightarrow> real" where
  "truthval b = (if b then 1 else 0)"

definition py_le :: "res \<Rightarrow> res \<Rightarrow> res" where
  "py_le = lift2 (arith (\<lambda>x y. Some (truthval (x \<le> y))) TypeError)"

definition py_ge :: "res \<Rightarrow> res \<Rightarrow> res" where
  "py_ge = lift2 (arith (\<lambda>x y. Some (truthval (x \<ge> y))) TypeError)"

definition py_gt :: "res \<Rightarrow> res \<Rightarrow> res" where
  "py_gt = lift2 (arith (\<lambda>x y. Some (truthval (x > y))) TypeError)"

text \<open>
  \<^verbatim>\<open>==\<close> never fails between Python's own values: \<^verbatim>\<open>None\<close> equals only
  \<^verbatim>\<open>None\<close>. Between a raster and a number or a raster it is the cell-wise comparison.
\<close>

fun eq_val :: "val \<Rightarrow> val \<Rightarrow> res" where
  "eq_val PyNone PyNone = Inr (Num 1)"
| "eq_val PyNone (Num y) = Inr (Num 0)"
| "eq_val (Num x) PyNone = Inr (Num 0)"
| "eq_val PyNone (Ras h) = Inl TypeError"
| "eq_val (Ras g) PyNone = Inl TypeError"
| "eq_val a b = arith (\<lambda>x y. Some (truthval (x = y))) TypeError a b"

definition py_eq :: "res \<Rightarrow> res \<Rightarrow> res" where
  "py_eq = lift2 eq_val"

text \<open>
  \<^verbatim>\<open>|\<close> is only ever applied to the results of two comparisons: the Boolean Or of two
  rasters, or of two Python booleans.
\<close>

definition py_or :: "res \<Rightarrow> res \<Rightarrow> res" where
  "py_or = lift2 (arith (\<lambda>x y. Some (truthval (\<not> (x = 0 \<and> y = 0)))) TypeError)"

text \<open>
  The truth value that an \<^verbatim>\<open>if\<close> statement takes of a value. A raster has none:
  arcpy raises \<^verbatim>\<open>ValueError\<close> (the truth value of a raster is ambiguous).
\<close>

fun truth :: "val \<Rightarrow> pyerror + bool" where
  "truth PyNone = Inr False"
| "truth (Num x) = Inr (x \<noteq> 0)"
| "truth (Ras g) = Inl ValueError"

subsection \<open>The arcpy.sa functions\<close>

text \<open>
  Each is cell-wise and returns a raster. \<open>Con\<close> takes the second operand's cell where
  the condition's cell is non-zero, the third operand's cell where it is zero, and is
  NoData where the condition is NoData. The mathematical functions are NoData outside
  their domain.
\<close>

definition con_cell :: "cell \<Rightarrow> cell \<Rightarrow> cell \<Rightarrow> cell" where
  "con_cell c t e = (case c of None \<Rightarrow> None | Some b \<Rightarrow> if b \<noteq> 0 then t else e)"

definition con_val :: "val \<Rightarrow> val \<Rightarrow> val \<Rightarrow> res" where
  "con_val c t e =
     (case cells c of None \<Rightarrow> Inl TypeError | Some gc \<Rightarrow>
      (case cells t of None \<Rightarrow> Inl TypeError | Some gt \<Rightarrow>
       (case cells e of None \<Rightarrow> Inl TypeError | Some ge \<Rightarrow>
          Inr (Ras (\<lambda>p. con_cell (gc p) (gt p) (ge p))))))"

definition Con :: "res \<Rightarrow> res \<Rightarrow> res \<Rightarrow> res" where
  "Con c t e = bind c (\<lambda>vc. bind t (\<lambda>vt. bind e (\<lambda>ve. con_val vc vt ve)))"

definition sa1 :: "(real \<Rightarrow> cell) \<Rightarrow> val \<Rightarrow> res" where
  "sa1 f v = (case cells v of None \<Rightarrow> Inl TypeError | Some g \<Rightarrow> Inr (Ras (\<lambda>p. cell1 f (g p))))"

definition sa2 :: "(real \<Rightarrow> real \<Rightarrow> cell) \<Rightarrow> val \<Rightarrow> val \<Rightarrow> res" where
  "sa2 f a b =
     (case cells a of None \<Rightarrow> Inl TypeError | Some g \<Rightarrow>
      (case cells b of None \<Rightarrow> Inl TypeError | Some h \<Rightarrow>
         Inr (Ras (\<lambda>p. cell2 f (g p) (h p)))))"

definition ln_cell :: "real \<Rightarrow> cell" where
  "ln_cell x = (if 0 < x then Some (ln x) else None)"

definition sqrt_cell :: "real \<Rightarrow> cell" where
  "sqrt_cell x = (if 0 \<le> x then Some (sqrt x) else None)"

definition acos_cell :: "real \<Rightarrow> cell" where
  "acos_cell x = (if - 1 \<le> x \<and> x \<le> 1 then Some (arccos x) else None)"

definition asin_cell :: "real \<Rightarrow> cell" where
  "asin_cell x = (if - 1 \<le> x \<and> x \<le> 1 then Some (arcsin x) else None)"

text \<open>
  \<open>Power\<close>: a positive base takes any exponent; zero to a negative exponent and a negative
  base to a fractional exponent are NoData.
\<close>

definition power_cell :: "real \<Rightarrow> real \<Rightarrow> cell" where
  "power_cell x y =
     (if 0 < x then Some (x powr y)
      else if x = 0 then (if y < 0 then None else if y = 0 then Some 1 else Some 0)
      else if y = of_int \<lfloor>y\<rfloor> then Some (x powi \<lfloor>y\<rfloor>)
      else None)"

definition Ln :: "res \<Rightarrow> res" where
  "Ln = lift1 (sa1 ln_cell)"

definition SquareRoot :: "res \<Rightarrow> res" where
  "SquareRoot = lift1 (sa1 sqrt_cell)"

definition Sin :: "res \<Rightarrow> res" where
  "Sin = lift1 (sa1 (\<lambda>x. Some (sin x)))"

definition ATan :: "res \<Rightarrow> res" where
  "ATan = lift1 (sa1 (\<lambda>x. Some (arctan x)))"

definition ACos :: "res \<Rightarrow> res" where
  "ACos = lift1 (sa1 acos_cell)"

definition ASin :: "res \<Rightarrow> res" where
  "ASin = lift1 (sa1 asin_cell)"

definition Power :: "res \<Rightarrow> res \<Rightarrow> res" where
  "Power = lift2 (sa2 power_cell)"

section \<open>The module's functions\<close>

definition getDegrees :: "res \<Rightarrow> res" where
  "getDegrees in_data = py_div (py_mul in_data (num 180)) (num pi)"

definition getRadians :: "res \<Rightarrow> res" where
  "getRadians in_data = py_div (py_mul in_data (num pi)) (num 180)"

subsection \<open>Mid-flame wind speed\<close>

text \<open>
  Lines 47 to 52: the conversion of the inputs, selected by \<open>units\<close>. The in-place
  operators rebind the local names; the statements run in order.
\<close>

definition convert_units :: "val \<Rightarrow> val \<Rightarrow> val \<Rightarrow> string \<Rightarrow> pyerror + (val \<times> val \<times> val)" where
  "convert_units windspeed canopy_ht canopy_baseht units =
     (if units = ''SI'' then
        bind (py_div (Inr windspeed) (py_mul (num 3.6) (num 1.15))) (\<lambda>windspeed'.
        bind (py_mul (Inr canopy_ht) (num 3.28084)) (\<lambda>canopy_ht'.
        bind (py_mul (Inr canopy_baseht) (num 3.28084)) (\<lambda>canopy_baseht'.
          Inr (windspeed', canopy_ht', canopy_baseht'))))
      else if units = ''IMP'' then
        bind (py_div (Inr windspeed) (num 2.23694)) (\<lambda>windspeed'.
          Inr (windspeed', canopy_ht, canopy_baseht))
      else Inr (windspeed, canopy_ht, canopy_baseht))"

text \<open>Lines 54 to 64, on the converted inputs.\<close>

definition wind_reduction :: "val \<Rightarrow> val \<Rightarrow> val \<Rightarrow> val \<Rightarrow> res" where
  "wind_reduction windspeed canopy_cover canopy_ht canopy_baseht =
     bind (Con (py_eq (Inr canopy_ht) (num 0)) (num 0)
               (py_div (py_sub (Inr canopy_ht) (Inr canopy_baseht)) (Inr canopy_ht))) (\<lambda>crown_ratio.
     bind (py_div (py_mul (Inr crown_ratio) (Inr canopy_cover)) (num 300)) (\<lambda>f.
     bind (Con (py_eq (Inr canopy_ht) (num 0)) (py_mul (num 0.5) (num 3.28084)) (Inr canopy_ht)) (\<lambda>canopy_ht'.
       Con (py_le (Inr f) (num 5))
           (py_div (py_mul (Inr windspeed) (num 1.83))
                   (Ln (py_div (py_add (num 20) (py_mul (num 0.36) (Inr canopy_ht')))
                               (py_mul (num 0.13) (Inr canopy_ht')))))
           (py_div (py_mul (Inr windspeed) (num 0.555))
                   (py_mul (SquareRoot (py_mul (Inr f) (Inr canopy_ht')))
                           (Ln (py_div (py_add (num 20) (py_mul (num 0.36) (Inr canopy_ht')))
                                       (py_mul (num 0.13) (Inr canopy_ht')))))))))"

definition getMidFlameWS :: "val \<Rightarrow> val \<Rightarrow> val \<Rightarrow> val \<Rightarrow> string \<Rightarrow> res" where
  "getMidFlameWS windspeed canopy_cover canopy_ht canopy_baseht units =
     bind (convert_units windspeed canopy_ht canopy_baseht units)
       (\<lambda>(windspeed', canopy_ht', canopy_baseht').
          wind_reduction windspeed' canopy_cover canopy_ht' canopy_baseht')"

subsection \<open>Flame length\<close>

text \<open>The published correlations, in the order of the dictionary literal.\<close>

definition model_dict :: "(string \<times> real list) list" where
  "model_dict =
    [(''Fons_NOWIND'', [0.024018, 2/3]),
     (''Thomas_NOWIND'', [0.026700, 2/3]),
     (''Yuana_NOWIND'', [0.034000, 2/3]),
     (''Barbon_iNOWIND'', [0.062000, 0.5336]),
     (''Nelson_BACK'', [0.027973, 2/3]),
     (''Fernandes_BACK'', [0.029000, 0.7240]),
     (''Clark_BACK'', [0.001600, 1.7450]),
     (''Vega_BACK'', [0.087000, 0.4930]),
     (''Byram_HEAD'', [0.0775, 0.4600]),
     (''Anderson1_HEAD'', [0.013876, 0.6510]),
     (''Anderson2_HEAD'', [0.008800, 0.6700]),
     (''Newman_HEAD'', [0.05770, 0.5000]),
     (''Sneewujagt_HEAD'', [0.037680, 0.5000]),
     (''Nelson1_HEAD'', [0.044230, 0.5000]),
     (''Clark_HEAD'', [0.000722, 0.9934]),
     (''Nelson2_HEAD'', [0.047500, 0.4930]),
     (''VanWilgen_HEAD'', [0.046000, 0.4128]),
     (''Burrows_HEAD'', [0.040480, 0.5740]),
     (''MarsdenSmedley_HEAD'', [0.148, 0.403]),
     (''Weise1_HEAD'', [0.016000, 0.7000]),
     (''Catchpole_HEAD'', [0.032500, 0.5600]),
     (''Fernandes1_HEAD'', [0.051600, 0.4530]),
     (''Butler_HEAD'', [0.017500, 2/3]),
     (''Fernandes_HEAD'', [0.045000, 0.5430]),
     (''Nelson3_HEAD'', [0.014200, 2/3]),
     (''Nelson4_HEAD'', [0.015500, 2/3]),
     (''Weise2_HEAD'', [0.2000000, 0.3400]),
     (''Davies_HEAD'', [0.220000, 0.2900]),
     (''Finney_HEAD'', [0.01051, 0.774, 0.161])]"

text \<open>Indexing a tuple: out of range raises \<^verbatim>\<open>IndexError\<close>.\<close>

definition index :: "real list \<Rightarrow> nat \<Rightarrow> res" where
  "index xs i = (if i < length xs then Inr (Num (xs ! i)) else Inl IndexError)"

text \<open>The function returns the coefficient tuple or the flame length.\<close>

datatype fl_result = Params "real list" | Length val

definition getFlameLength :: "string \<Rightarrow> val \<Rightarrow> val \<Rightarrow> bool \<Rightarrow> pyerror + fl_result" where
  "getFlameLength model fire_intensity flame_depth params_only =
     (case map_of model_dict model of
        None \<Rightarrow> Inl (PyException ''Unable to calculate flame length - Model choice is invalid'')
      | Some model_params \<Rightarrow>
          if params_only then Inr (Params model_params)
          else if model = ''Finney_HEAD'' then
            bind (py_div (py_mul (index model_params 0)
                                 (Power (Inr fire_intensity) (index model_params 1)))
                         (Power (Inr flame_depth) (index model_params 2)))
                 (\<lambda>v. Inr (Length v))
          else
            bind (py_mul (index model_params 0)
                         (Power (Inr fire_intensity) (index model_params 1)))
                 (\<lambda>v. Inr (Length v)))"

subsection \<open>Flame height\<close>

definition getFlameHeight ::
  "string \<Rightarrow> val \<Rightarrow> val \<Rightarrow> val \<Rightarrow> val \<Rightarrow> val \<Rightarrow> val \<Rightarrow> string option \<Rightarrow> res" where
  "getFlameHeight model flame_length fire_type fire_intensity midflame_ws flame_tilt
       slope_angle slope_units =
     (if model = ''Nelson'' then
        bind (Con (py_or (py_eq (Inr fire_type) (num 1)) (py_eq (Inr fire_type) (num 2)))
                  (py_div (num 1) (num 360))
                  (Con (py_eq (Inr fire_type) (num 3)) (num 0.0175) (num 0))) (\<lambda>a.
        bind (Con (py_eq (Inr midflame_ws) (num 0)) (Inr flame_length)
                  (py_div (py_mul (Inr a) (Inr fire_intensity)) (Inr midflame_ws))) (\<lambda>height.
          Con (py_gt (Inr height) (Inr flame_length)) (Inr flame_length) (Inr height)))
      else if model = ''Finney'' then
        bind (if slope_units = Some ''percent'' then ATan (py_div (Inr slope_angle) (num 100))
              else if slope_units = Some ''degrees'' then getRadians (Inr slope_angle)
              else Inl (PyException ''Unable to calculate flame height - Slope tilt'')) (\<lambda>slope_rad.
        bind (py_sub (py_div (num pi) (num 2)) (getRadians (Inr flame_tilt))) (\<lambda>tilt_h.
          Con (py_le (Inr slope_angle) (num 1))
              (py_mul (Inr flame_length) (Sin (Inr tilt_h)))
              (py_div (py_mul (Inr flame_length) (Sin (py_sub (Inr tilt_h) (Inr slope_rad))))
                      (Sin (py_sub (getRadians (num 90)) (Inr slope_rad))))))
      else Inl (PyException ''Unable to calculate flame height - Model choice is invalid''))"

subsection \<open>Flame tilt\<close>

definition butler_missing :: string where
  "butler_missing = ''Unable to calculate '' @ [CHR 0x22] @ ''Butler'' @ [CHR 0x22] @
     '' flame tilt - Did not pass at least one of the required input parameters''"

text \<open>
  Lines 226 to 269: the tilt relative to vertical, in radians, of the selected model.
\<close>

definition tilt_v ::
  "string \<Rightarrow> val \<Rightarrow> val \<Rightarrow> val \<Rightarrow> string option \<Rightarrow> val \<Rightarrow> string option \<Rightarrow> val \<Rightarrow> res" where
  "tilt_v model flame_length flame_height slope_angle slope_units windspeed windspeed_units
       canopy_ht =
     (if model = ''Standard'' then ACos (py_div (Inr flame_height) (Inr flame_length))
      else if model = ''Finney'' then
        bind (if slope_units = Some ''percent'' then ATan (py_div (Inr slope_angle) (num 100))
              else if slope_units = Some ''degrees'' then getRadians (Inr slope_angle)
              else Inl (PyException ''Unable to calculate flame tilt - Invalid slope units provided''))
          (\<lambda>slope_rad.
        bind (bind (py_eq (Inr flame_height) (Inr flame_length)) truth) (\<lambda>same.
          if same then num 0
          else
            bind (py_add (ASin (getRadians
                     (py_div (py_mul (Inr flame_height)
                                (getDegrees (Sin (py_sub (getRadians (num 90)) (Inr slope_rad)))))
                             (Inr flame_length))))
                   (Inr slope_rad)) (\<lambda>tilt_h.
              py_sub (py_div (num pi) (num 2)) (Inr tilt_h))))
      else if model = ''Butler'' then
        (if windspeed = PyNone \<or> windspeed_units = None \<or> canopy_ht = PyNone
         then Inl (PyException butler_missing)
         else
           bind (if windspeed_units = Some ''kph'' then py_div (Inr windspeed) (num 3.6)
                 else if windspeed_units = Some ''mph'' then py_div (Inr windspeed) (num 2.23694)
                 else Inr windspeed) (\<lambda>windspeed'.
           bind (py_div (Inr windspeed')
                   (py_mul (num 3.6)
                      (py_add (num 1) (Ln (py_add (num 1) (py_div (num 28) (Inr canopy_ht)))))))
             (\<lambda>uc.
             ATan (SquareRoot (py_div (py_mul (num 3) (Power (Inr uc) (num 3)))
                                      (py_mul (py_mul (num 2) (num 9.81)) (num 10)))))))
      else Inl (PyException ''Unable to calculate flame tilt - Model choice is invalid''))"

text \<open>Line 272: the returned angle in degrees, negative tilt replaced by 0.\<close>

definition getFlameTilt ::
  "string \<Rightarrow> val \<Rightarrow> val \<Rightarrow> val \<Rightarrow> string option \<Rightarrow> val \<Rightarrow> string option \<Rightarrow> val \<Rightarrow> res" where
  "getFlameTilt model flame_length flame_height slope_angle slope_units windspeed
       windspeed_units canopy_ht =
     bind (tilt_v model flame_length flame_height slope_angle slope_units windspeed
             windspeed_units canopy_ht) (\<lambda>tv.
       Con (py_ge (Inr tv) (num 0)) (getDegrees (Inr tv)) (num 0))"

subsection \<open>Residence time and flame depth\<close>

definition getFlameResidenceTime :: "val \<Rightarrow> val \<Rightarrow> val \<Rightarrow> string \<Rightarrow> res" where
  "getFlameResidenceTime ros fuel_consumption midflame_ws units =
     bind (py_div (py_mul (py_mul (num 0.39) (Power (Inr fuel_consumption) (num 0.25)))
                          (Power (Inr midflame_ws) (num 1.51)))
                  (py_div (Inr ros) (num 60))) (\<lambda>res_time.
       if units = ''min'' then py_div (Inr res_time) (num 60) else Inr res_time)"

definition getFlameDepth :: "val \<Rightarrow> val \<Rightarrow> res" where
  "getFlameDepth ros res_time = py_mul (Inr ros) (Inr res_time)"

section \<open>The formulas of the specification\<close>

text \<open>
  The definitions of this section follow the wording of the specification, cell by cell
  and on real numbers. The theorems below compare them with the functions above, which
  follow the source.
\<close>

subsection \<open>Mid-flame wind speed (specification 4.3)\<close>

definition spec_windspeed :: "string \<Rightarrow> real \<Rightarrow> real" where
  "spec_windspeed units w =
     (if units = ''SI'' then w / 4.14 else if units = ''IMP'' then w / 2.23694 else w)"

definition spec_height :: "string \<Rightarrow> real \<Rightarrow> real" where
  "spec_height units h = (if units = ''SI'' then h * 3.28084 else h)"

definition crown_ratio_spec :: "real \<Rightarrow> real \<Rightarrow> real" where
  "crown_ratio_spec h b = (if h = 0 then 0 else (h - b) / h)"

definition substituted_height :: "real \<Rightarrow> real" where
  "substituted_height h = (if h = 0 then 0.5 * 3.28084 else h)"

definition log_term :: "real \<Rightarrow> real" where
  "log_term h = ln ((20 + 0.36 * h) / (0.13 * h))"

definition midflame_spec :: "real \<Rightarrow> real \<Rightarrow> real \<Rightarrow> real \<Rightarrow> real" where
  "midflame_spec w c h b =
     (if crown_ratio_spec h b * c / 300 \<le> 5
      then w * 1.83 / log_term (substituted_height h)
      else w * 0.555 / (sqrt (crown_ratio_spec h b * c / 300 * substituted_height h)
                        * log_term (substituted_height h)))"

subsection \<open>Flame height (specification 4.5)\<close>

definition nelson_a :: "real \<Rightarrow> real" where
  "nelson_a t = (if t = 1 \<or> t = 2 then 1 / 360 else if t = 3 then 0.0175 else 0)"

definition nelson_raw :: "real \<Rightarrow> real \<Rightarrow> real \<Rightarrow> real \<Rightarrow> real" where
  "nelson_raw t i w l = (if w = 0 then l else nelson_a t * i / w)"

definition nelson_height :: "real \<Rightarrow> real \<Rightarrow> real \<Rightarrow> real \<Rightarrow> real" where
  "nelson_height t i w l = (if nelson_raw t i w l > l then l else nelson_raw t i w l)"

definition slope_radians :: "string \<Rightarrow> real \<Rightarrow> real" where
  "slope_radians units s = (if units = ''percent'' then arctan (s / 100) else s * pi / 180)"

definition finney_height :: "string \<Rightarrow> real \<Rightarrow> real \<Rightarrow> real \<Rightarrow> real" where
  "finney_height units l t s =
     (if s \<le> 1 then l * sin (pi / 2 - t * pi / 180)
      else l * sin (pi / 2 - t * pi / 180 - slope_radians units s)
             / sin (90 * pi / 180 - slope_radians units s))"

subsection \<open>Flame tilt (specification 4.6)\<close>

definition finney_ratio :: "string \<Rightarrow> real \<Rightarrow> real \<Rightarrow> real \<Rightarrow> real" where
  "finney_ratio units h l s =
     h * (sin (90 * pi / 180 - slope_radians units s) * 180 / pi) / l * pi / 180"

definition finney_tilt_v :: "string \<Rightarrow> real \<Rightarrow> real \<Rightarrow> real \<Rightarrow> real" where
  "finney_tilt_v units h l s =
     pi / 2 - (arcsin (finney_ratio units h l s) + slope_radians units s)"

definition butler_uc :: "real \<Rightarrow> real \<Rightarrow> real" where
  "butler_uc w c = w / (3.6 * (1 + ln (1 + 28 / c)))"

definition butler_tilt :: "real \<Rightarrow> real \<Rightarrow> real" where
  "butler_tilt w c = arctan (sqrt (3 * butler_uc w c ^ 3 / (2 * 9.81 * 10)))"

definition clamp_degrees :: "real \<Rightarrow> real" where
  "clamp_degrees t = (if 0 \<le> t then t * 180 / pi else 0)"

section \<open>Auxiliary facts\<close>

lemma bind_Inl [simp]: "bind (Inl e) k = Inl e"
  by (simp add: bind_def)

lemma bind_Inr [simp]: "bind (Inr x) k = k x"
  by (simp add: bind_def)

lemma cell2_simps [simp]:
  "cell2 f (Some x) (Some y) = f x y" "cell2 f None b = None" "cell2 f a None = None"
  by (simp_all add: cell2_def split: option.splits)

lemma cell1_simps [simp]: "cell1 f (Some x) = f x" "cell1 f None = None"
  by (simp_all add: cell1_def)

lemma con_cell_simps [simp]:
  "con_cell (Some b) t e = (if b \<noteq> 0 then t else e)" "con_cell None t e = None"
  by (simp_all add: con_cell_def)

lemmas op_defs = py_add_def py_sub_def py_mul_def py_div_def py_le_def py_ge_def py_gt_def
  py_eq_def py_or_def lift1_def lift2_def num_def Con_def con_val_def sa1_def sa2_def
  Ln_def SquareRoot_def Sin_def ATan_def ACos_def ASin_def Power_def

lemma cell_at_Some_cases:
  assumes "cell_at v p = Some x"
  obtains "v = Num x" | g where "v = Ras g" "g p = Some x"
  using assms by (cases v) (auto simp: cell_at_def)

lemma getDegrees_cases:
  "getDegrees (Inr (Num t)) = Inr (Num (t * 180 / pi))"
  "getDegrees (Inr (Ras g)) = Inr (Ras (\<lambda>p. cell1 (\<lambda>t. Some (t * 180 / pi)) (g p)))"
  by (auto simp: getDegrees_def op_defs div_cell_def cell1_def cell2_def split: option.splits)

lemma getRadians_cases:
  "getRadians (Inr (Num t)) = Inr (Num (t * pi / 180))"
  "getRadians (Inr (Ras g)) = Inr (Ras (\<lambda>p. cell1 (\<lambda>t. Some (t * pi / 180)) (g p)))"
  by (auto simp: getRadians_def op_defs div_cell_def cell1_def cell2_def split: option.splits)

subsection \<open>Which exceptions an operation can raise\<close>

text \<open>
  The operators and the arcpy functions raise only Python's built-in exceptions, so an
  expression built from them never raises one of the module's own \<open>PyException\<close>s.
\<close>

named_theorems no_exc

lemma arith_err: "arith f err a b = Inl e \<Longrightarrow> e = err \<or> e = TypeError"
  by (cases a; cases b) (auto split: option.splits)

lemma eq_val_err: "eq_val a b = Inl e \<Longrightarrow> e = TypeError"
  by (cases a; cases b) (auto split: option.splits)

lemma con_val_err: "con_val c t e = Inl x \<Longrightarrow> x = TypeError"
  by (auto simp: con_val_def split: option.splits)

lemma sa1_err: "sa1 f a = Inl x \<Longrightarrow> x = TypeError"
  by (auto simp: sa1_def split: option.splits)

lemma sa2_err: "sa2 f a b = Inl x \<Longrightarrow> x = TypeError"
  by (auto simp: sa2_def split: option.splits)

lemma bind_no [no_exc]:
  "m \<noteq> Inl (PyException s) \<Longrightarrow> (\<And>x. k x \<noteq> Inl (PyException s)) \<Longrightarrow>
   bind m k \<noteq> Inl (PyException s)"
  by (cases m) auto

lemma if_no [no_exc]:
  "(c \<Longrightarrow> a \<noteq> Inl (PyException s)) \<Longrightarrow> (\<not> c \<Longrightarrow> b \<noteq> Inl (PyException s)) \<Longrightarrow>
   (if c then a else b) \<noteq> Inl (PyException s)"
  by simp

lemma Inr_no [no_exc]: "Inr v \<noteq> Inl (PyException s)"
  by simp

lemma num_no [no_exc]: "num x \<noteq> Inl (PyException s)"
  by (simp add: num_def)

lemma lift2_arith_no:
  "err \<noteq> PyException s \<Longrightarrow> a \<noteq> Inl (PyException s) \<Longrightarrow> b \<noteq> Inl (PyException s) \<Longrightarrow>
   lift2 (arith f err) a b \<noteq> Inl (PyException s)"
  by (cases a; cases b) (auto simp: lift2_def dest: arith_err)

lemma py_ops_no [no_exc]:
  assumes "a \<noteq> Inl (PyException s)" "b \<noteq> Inl (PyException s)"
  shows "py_add a b \<noteq> Inl (PyException s)" "py_sub a b \<noteq> Inl (PyException s)"
    "py_mul a b \<noteq> Inl (PyException s)" "py_div a b \<noteq> Inl (PyException s)"
    "py_le a b \<noteq> Inl (PyException s)" "py_ge a b \<noteq> Inl (PyException s)"
    "py_gt a b \<noteq> Inl (PyException s)" "py_or a b \<noteq> Inl (PyException s)"
  unfolding py_add_def py_sub_def py_mul_def py_div_def py_le_def py_ge_def py_gt_def py_or_def
  by (rule lift2_arith_no; simp add: assms)+

lemma py_eq_no [no_exc]:
  "a \<noteq> Inl (PyException s) \<Longrightarrow> b \<noteq> Inl (PyException s) \<Longrightarrow> py_eq a b \<noteq> Inl (PyException s)"
  by (cases a; cases b) (auto simp: py_eq_def lift2_def dest: eq_val_err)

lemma Power_no [no_exc]:
  "a \<noteq> Inl (PyException s) \<Longrightarrow> b \<noteq> Inl (PyException s) \<Longrightarrow> Power a b \<noteq> Inl (PyException s)"
  by (cases a; cases b) (auto simp: Power_def lift2_def dest: sa2_err)

lemma Con_no [no_exc]:
  "c \<noteq> Inl (PyException s) \<Longrightarrow> t \<noteq> Inl (PyException s) \<Longrightarrow> e \<noteq> Inl (PyException s) \<Longrightarrow>
   Con c t e \<noteq> Inl (PyException s)"
  by (cases c; cases t; cases e) (auto simp: Con_def dest: con_val_err)

lemma sa_fun_no [no_exc]:
  assumes "a \<noteq> Inl (PyException s)"
  shows "Ln a \<noteq> Inl (PyException s)" "SquareRoot a \<noteq> Inl (PyException s)"
    "Sin a \<noteq> Inl (PyException s)" "ATan a \<noteq> Inl (PyException s)"
    "ACos a \<noteq> Inl (PyException s)" "ASin a \<noteq> Inl (PyException s)"
  using assms
  by (cases a; auto simp: Ln_def SquareRoot_def Sin_def ATan_def ACos_def ASin_def lift1_def
      dest: sa1_err)+

lemma conv_no [no_exc]:
  assumes "a \<noteq> Inl (PyException s)"
  shows "getDegrees a \<noteq> Inl (PyException s)" "getRadians a \<noteq> Inl (PyException s)"
  unfolding getDegrees_def getRadians_def by (intro no_exc assms)+

lemma truth_no [no_exc]: "truth v \<noteq> Inl (PyException s)"
  by (cases v) auto

lemma index_no [no_exc]: "index xs i \<noteq> Inl (PyException s)"
  by (simp add: index_def)

subsection \<open>Model names\<close>

lemma getFlameHeight_invalid:
  "model \<noteq> ''Nelson'' \<Longrightarrow> model \<noteq> ''Finney'' \<Longrightarrow>
      getFlameHeight model fl ft fi mws tilt sa su =
        Inl (PyException ''Unable to calculate flame height - Model choice is invalid'')"
  by (simp add: getFlameHeight_def)

lemma getFlameHeight_valid:
  "model = ''Nelson'' \<or> model = ''Finney'' \<Longrightarrow>
      getFlameHeight model fl ft fi mws tilt sa su \<noteq>
        Inl (PyException ''Unable to calculate flame height - Model choice is invalid'')"
  unfolding getFlameHeight_def
  apply (intro no_exc)
  apply simp_all
  done

lemma tilt_v_valid:
  "model = ''Standard'' \<or> model = ''Finney'' \<or> model = ''Butler'' \<Longrightarrow>
      tilt_v model fl fh sa su ws wu ch \<noteq>
        Inl (PyException ''Unable to calculate flame tilt - Model choice is invalid'')"
  unfolding tilt_v_def
  apply (intro no_exc)
  apply (simp_all add: butler_missing_def)
  done

lemma getFlameTilt_valid:
  "model = ''Standard'' \<or> model = ''Finney'' \<or> model = ''Butler'' \<Longrightarrow>
      getFlameTilt model fl fh sa su ws wu ch \<noteq>
        Inl (PyException ''Unable to calculate flame tilt - Model choice is invalid'')"
  unfolding getFlameTilt_def
  by (intro no_exc tilt_v_valid)

lemma getFlameTilt_invalid:
  "model \<noteq> ''Standard'' \<Longrightarrow> model \<noteq> ''Finney'' \<Longrightarrow> model \<noteq> ''Butler'' \<Longrightarrow>
      getFlameTilt model fl fh sa su ws wu ch =
        Inl (PyException ''Unable to calculate flame tilt - Model choice is invalid'')"
  by (simp add: getFlameTilt_def tilt_v_def)

lemma getFlameLength_invalid:
  "map_of model_dict model = None \<Longrightarrow> getFlameLength model fi fd po =
      Inl (PyException ''Unable to calculate flame length - Model choice is invalid'')"
  by (simp add: getFlameLength_def)

lemma getFlameLength_valid:
  assumes "map_of model_dict model = Some ps"
  shows "getFlameLength model fi fd po \<noteq>
      Inl (PyException ''Unable to calculate flame length - Model choice is invalid'')"
  using assms unfolding getFlameLength_def
  by (simp; intro no_exc conjI impI)

subsection \<open>The registry of flame-length models\<close>

lemma model_dict_keys_distinct: "distinct (map fst model_dict)"
  by (simp add: model_dict_def)

lemma model_dict_length: "length model_dict = 29"
  by (simp add: model_dict_def)

lemma model_dict_card: "card (dom (map_of model_dict)) = 29"
proof -
  have "dom (map_of model_dict) = set (map fst model_dict)"
    by (simp add: dom_map_of_conv_image_fst)
  then have "card (dom (map_of model_dict)) = length (map fst model_dict)"
    using distinct_card [OF model_dict_keys_distinct] by metis
  then show ?thesis by (simp add: model_dict_length)
qed

lemma registry_shape:
  assumes "map_of model_dict model = Some ps"
  shows "0 < ps ! 1 \<and> (if model = ''Finney_HEAD'' then ps = [0.01051, 0.774, 0.161]
           else length ps = 2)"
  using assms by (auto simp: model_dict_def split: if_splits)

lemma power_cell_nonneg: "0 \<le> x \<Longrightarrow> 0 < b \<Longrightarrow> power_cell x b = Some (x powr b)"
  by (simp add: power_cell_def)

lemma power_cell_3: "0 \<le> x \<Longrightarrow> power_cell x 3 = Some (x ^ 3)"
  by (simp add: power_cell_def)

subsection \<open>Mid-flame wind speed, cell by cell\<close>

lemma wind_reduction_returns:
  "\<exists>r. wind_reduction (Ras ws) (Ras cc) (Ras ht) (Ras bh) = Inr (Ras r)"
  by (simp add: wind_reduction_def op_defs)

lemma wind_reduction_cell:
  assumes "ws p = Some w" "cc p = Some c" "ht p = Some h" "0 \<le> h"
  shows "\<exists>r. wind_reduction (Ras ws) (Ras cc) (Ras ht) (Ras bh) = Inr (Ras r) \<and>
     (h = 0 \<longrightarrow> r p = Some (w * 1.83 / log_term (0.5 * 3.28084))) \<and>
     (\<forall>b. bh p = Some b \<longrightarrow> r p = Some (midflame_spec w c h b))"
proof (cases "h = 0")
  case True
  have arg: "0 < (20 + 0.36 * (0.5 * 3.28084)) / (0.13 * (0.5 * 3.28084 :: real))"
    "ln ((20 + 0.36 * (0.5 * 3.28084)) / (0.13 * (0.5 * 3.28084 :: real))) \<noteq> 0"
    by simp_all
  show ?thesis
    using assms True arg
    apply (simp add: wind_reduction_def op_defs)
    apply (simp add: div_cell_def truthval_def ln_cell_def sqrt_cell_def midflame_spec_def
        crown_ratio_spec_def substituted_height_def log_term_def)
    done
next
  case False
  then have hpos: "0 < h" using assms(4) by simp
  have neg: "(h - b) * c / (h * 300) \<le> 5" if "\<not> 0 \<le> (h - b) * c" for b
  proof -
    have "(h - b) * c / (h * 300) < 0"
      using that hpos by (intro divide_neg_pos) simp_all
    then show ?thesis by simp
  qed
  show ?thesis
    using assms False hpos neg
    apply (simp add: wind_reduction_def op_defs)
    apply (simp add: div_cell_def truthval_def ln_cell_def sqrt_cell_def midflame_spec_def
        crown_ratio_spec_def substituted_height_def log_term_def)
    done
qed

lemma convert_units_SI:
  "convert_units (Ras ws) (Ras ht) (Ras bh) ''SI'' =
     Inr (Ras (\<lambda>p. cell2 div_cell (ws p) (Some (3.6 * 1.15))),
          Ras (\<lambda>p. cell2 (\<lambda>x y. Some (x * y)) (ht p) (Some 3.28084)),
          Ras (\<lambda>p. cell2 (\<lambda>x y. Some (x * y)) (bh p) (Some 3.28084)))"
  by (simp add: convert_units_def op_defs)

lemma convert_units_IMP:
  "convert_units (Ras ws) (Ras ht) (Ras bh) ''IMP'' =
     Inr (Ras (\<lambda>p. cell2 div_cell (ws p) (Some 2.23694)), Ras ht, Ras bh)"
  by (simp add: convert_units_def op_defs)

lemma convert_units_other:
  "units \<noteq> ''SI'' \<Longrightarrow> units \<noteq> ''IMP'' \<Longrightarrow>
     convert_units windspeed canopy_ht canopy_baseht units =
       Inr (windspeed, canopy_ht, canopy_baseht)"
  by (simp add: convert_units_def)

subsection \<open>Flame tilt, cell by cell\<close>

lemma clamp_step:
  assumes "Con (py_ge (Inr tv) (num 0)) (getDegrees (Inr tv)) (num 0) = Inr r"
  shows "\<exists>g. r = Ras g \<and>
     (\<forall>p. g p = cell1 (\<lambda>t. Some (clamp_degrees t)) (cell_at tv p))"
proof (cases tv)
  case PyNone
  with assms show ?thesis by (simp add: op_defs)
next
  case (Num t)
  with assms show ?thesis
    by (auto simp: getDegrees_cases op_defs cell_at_def truthval_def clamp_degrees_def)
next
  case (Ras g)
  with assms show ?thesis
    by (auto simp: getDegrees_cases op_defs cell_at_def truthval_def clamp_degrees_def
        cell1_def cell2_def con_cell_def split: option.splits)
qed

lemma clamp_degrees_nonneg: "0 \<le> clamp_degrees t"
  by (simp add: clamp_degrees_def)

lemma butler_returns:
  "\<exists>r. getFlameTilt ''Butler'' fl fh sa su (Ras ws) (Some wu) (Ras ch) = Inr (Ras r)"
  by (simp add: getFlameTilt_def tilt_v_def op_defs getDegrees_cases)

lemma butler_cell:
  assumes "ws p = Some w" "ch p = Some c" "0 \<le> w" "0 < c" "wu \<noteq> ''kph''" "wu \<noteq> ''mph''"
  shows "\<exists>r. getFlameTilt ''Butler'' fl fh sa su (Ras ws) (Some wu) (Ras ch) = Inr (Ras r) \<and>
           r p = Some (butler_tilt w c * 180 / pi)"
proof -
  have q: "0 < 28 / c" using assms(4) by simp
  then have arg: "1 < 1 + 28 / c" by linarith
  then have lnpos: "0 < ln (1 + 28 / c)" by (rule ln_gt_zero)
  then have den: "0 < 3.6 * (1 + ln (1 + 28 / c))" by simp
  have uc: "0 \<le> butler_uc w c"
    unfolding butler_uc_def using assms(3) den by (intro divide_nonneg_pos) simp_all
  have rad: "0 \<le> 3 * butler_uc w c ^ 3 / (2 * 9.81 * 10)"
    using uc by simp
  have c0: "c \<noteq> 0" using assms(4) by simp
  have c1: "0 < 1 + 28 / c" using q by linarith
  have d0: "3.6 * (1 + ln (1 + 28 / c)) \<noteq> 0" using den by simp
  have pw: "power_cell (butler_uc w c) 3 = Some (butler_uc w c ^ 3)"
    using uc by (rule power_cell_3)
  have sq: "sqrt_cell (3 * butler_uc w c ^ 3 / (2 * 9.81 * 10)) =
      Some (sqrt (3 * butler_uc w c ^ 3 / (2 * 9.81 * 10)))"
    using rad by (simp add: sqrt_cell_def)
  have dv: "div_cell w (3.6 * (1 + ln (1 + 28 / c))) = Some (butler_uc w c)"
    using d0 by (simp add: div_cell_def butler_uc_def)
  have ln: "ln_cell (1 + 28 / c) = Some (ln (1 + 28 / c))"
    using c1 by (simp only: ln_cell_def if_True)
  have d28: "div_cell 28 c = Some (28 / c)"
    using c0 by (simp add: div_cell_def)
  have dd: "div_cell (3 * butler_uc w c ^ 3) (2 * 9.81 * 10) =
      Some (3 * butler_uc w c ^ 3 / (2 * 9.81 * 10))"
    by (simp add: div_cell_def)
  have ge: "0 \<le> arctan (sqrt (3 * butler_uc w c ^ 3 / (2 * 9.81 * 10)))"
    using rad by simp
  show ?thesis
    using assms(1,2,5,6) ge d28 ln dv pw dd sq
    by (simp add: getFlameTilt_def tilt_v_def op_defs getDegrees_cases
        truthval_def butler_tilt_def)
qed

lemma finney_tilt_returns:
  assumes "u = ''percent'' \<or> u = ''degrees''" "h \<noteq> l"
  shows "\<exists>r. getFlameTilt ''Finney'' (Num l) (Num h) (Ras slope) (Some u) ws wu ch =
           Inr (Ras r)"
  using assms
  by (auto simp: getFlameTilt_def tilt_v_def op_defs getRadians_cases getDegrees_cases
      div_cell_def truthval_def)

lemma finney_tilt_cell:
  assumes "u = ''percent'' \<or> u = ''degrees''" "h \<noteq> l"
    and "slope p = Some s" "l \<noteq> 0"
    and "- 1 \<le> finney_ratio u h l s" "finney_ratio u h l s \<le> 1"
  shows "\<exists>r. getFlameTilt ''Finney'' (Num l) (Num h) (Ras slope) (Some u) ws wu ch =
           Inr (Ras r) \<and> r p = Some (clamp_degrees (finney_tilt_v u h l s))"
  using assms
  by (auto simp: getFlameTilt_def tilt_v_def op_defs getRadians_cases getDegrees_cases
      div_cell_def truthval_def asin_cell_def finney_tilt_v_def finney_ratio_def
      slope_radians_def clamp_degrees_def)

subsection \<open>Flame height, cell by cell\<close>

lemma finney_height_returns:
  assumes "u = ''percent'' \<or> u = ''degrees''"
  shows "\<exists>r. getFlameHeight ''Finney'' (Ras fl) ft fi mws (Ras tilt) (Ras slope) (Some u) =
           Inr (Ras r)"
  using assms
  by (auto simp: getFlameHeight_def op_defs getRadians_cases div_cell_def)

lemma finney_height_cell:
  assumes "u = ''percent'' \<or> u = ''degrees''"
    and "fl p = Some l" "tilt p = Some t" "slope p = Some s"
    and "s \<le> 1 \<or> sin (90 * pi / 180 - slope_radians u s) \<noteq> 0"
  shows "\<exists>r. getFlameHeight ''Finney'' (Ras fl) ft fi mws (Ras tilt) (Ras slope) (Some u) =
           Inr (Ras r) \<and> r p = Some (finney_height u l t s)"
  using assms
  by (auto simp: getFlameHeight_def op_defs getRadians_cases div_cell_def truthval_def
      finney_height_def slope_radians_def)

section \<open>The claims\<close>

subsection \<open>C1: the flame-length formulas\<close>

text \<open>
  C1, as stated, counts 27 keys in the registry of \<open>getFlameLength\<close>. The dictionary
  of the source has 29 distinct keys, so the count of the claim is wrong.
\<close>

theorem registry_not_27_keys: "card (dom (map_of model_dict)) \<noteq> 27"
  by (simp add: model_dict_card)

text \<open>
  C1 (amended): the registry has 29 keys. For every one of them, with \<open>params_only\<close>
  false, the call returns a raster; in every cell whose intensity \<open>x\<close> is non-negative
  the value is \<open>a * x powr b\<close> for the coefficients \<open>(a, b)\<close> of the model, and for
  \<open>Finney_HEAD\<close>, where the flame depth \<open>d\<close> of the cell is positive, it is
  \<open>0.01051 * x powr 0.774 / d powr 0.161\<close>. Intensity and flame depth may be rasters or
  numbers.
\<close>

theorem getFlameLength_formula:
  assumes "map_of model_dict model = Some ps"
    and "cell_at fire_intensity p = Some x" and "0 \<le> x"
  shows "card (dom (map_of model_dict)) = 29 \<and>
    (model \<noteq> ''Finney_HEAD'' \<longrightarrow>
       (\<exists>r. getFlameLength model fire_intensity flame_depth False = Inr (Length (Ras r)) \<and>
            length ps = 2 \<and> r p = Some (ps ! 0 * x powr ps ! 1))) \<and>
    (model = ''Finney_HEAD'' \<and> cell_at flame_depth p = Some d \<and> 0 < d \<longrightarrow>
       (\<exists>r. getFlameLength model fire_intensity flame_depth False = Inr (Length (Ras r)) \<and>
            r p = Some (0.01051 * x powr 0.774 / d powr 0.161)))"
proof (intro conjI impI)
  show "card (dom (map_of model_dict)) = 29"
    by (rule model_dict_card)
next
  assume other: "model \<noteq> ''Finney_HEAD''"
  from registry_shape [OF assms(1)] other have b: "0 < ps ! 1" and len: "length ps = 2"
    by auto
  have pw: "power_cell x (ps ! 1) = Some (x powr ps ! 1)"
    using assms(3) b by (rule power_cell_nonneg)
  from assms(2)
  show "\<exists>r. getFlameLength model fire_intensity flame_depth False = Inr (Length (Ras r)) \<and>
            length ps = 2 \<and> r p = Some (ps ! 0 * x powr ps ! 1)"
    using pw
    by (cases rule: cell_at_Some_cases)
      (simp_all add: getFlameLength_def assms(1) other len index_def op_defs)
next
  assume fin: "model = ''Finney_HEAD'' \<and> cell_at flame_depth p = Some d \<and> 0 < d"
  from registry_shape [OF assms(1)] fin have ps: "ps = [0.01051, 0.774, 0.161]"
    by auto
  from assms(1) fin ps
  have look: "map_of model_dict ''Finney_HEAD'' = Some [0.01051, 0.774, 0.161]"
    by simp
  have pw: "power_cell x 0.774 = Some (x powr 0.774)"
    using assms(3) by (simp add: power_cell_nonneg)
  have pd: "power_cell d 0.161 = Some (d powr 0.161)" "d powr 0.161 \<noteq> 0"
    using fin by (simp_all add: power_cell_def)
  from fin have "cell_at flame_depth p = Some d" by simp
  then show "\<exists>r. getFlameLength model fire_intensity flame_depth False = Inr (Length (Ras r)) \<and>
            r p = Some (0.01051 * x powr 0.774 / d powr 0.161)"
  proof (cases rule: cell_at_Some_cases)
    case 1
    from assms(2) show ?thesis
      using look pw pd
      by (cases rule: cell_at_Some_cases)
        (simp_all add: getFlameLength_def fin 1 index_def op_defs div_cell_def)
  next
    case (2 g)
    from assms(2) show ?thesis
      using look pw pd
      by (cases rule: cell_at_Some_cases)
        (simp_all add: getFlameLength_def fin 2 index_def op_defs div_cell_def)
  qed
qed

text \<open>
  The two calls named by the claim: \<open>Byram_HEAD\<close> at intensity 100, and \<open>Finney_HEAD\<close>
  at intensity 100 and flame depth 2.
\<close>

theorem getFlameLength_formula_witness:
  "(\<exists>r. getFlameLength ''Byram_HEAD'' (Num 100) PyNone False = Inr (Length (Ras r)) \<and>
        r (0, 0) = Some (0.0775 * 100 powr 0.46)) \<and>
   (\<exists>r. getFlameLength ''Finney_HEAD'' (Num 100) (Num 2) False = Inr (Length (Ras r)) \<and>
        r (0, 0) = Some (0.01051 * 100 powr 0.774 / 2 powr 0.161))"
proof -
  have m1: "map_of model_dict ''Byram_HEAD'' = Some [0.0775, 0.46]"
    by (simp add: model_dict_def)
  have m2: "map_of model_dict ''Finney_HEAD'' = Some [0.01051, 0.774, 0.161]"
    by (simp add: model_dict_def)
  have c: "cell_at (Num 100) (0, 0) = Some 100" "(0::real) \<le> 100"
    by (simp_all add: cell_at_def)
  have d: "cell_at (Num 2) (0, 0) = Some 2"
    by (simp add: cell_at_def)
  from getFlameLength_formula [OF m1 c, where flame_depth = PyNone and d = 1]
    getFlameLength_formula [OF m2 c, where flame_depth = "Num 2" and d = 2] d
  show ?thesis by simp
qed

subsection \<open>C2: the Nelson flame height\<close>

text \<open>
  C2: for the \<open>Nelson\<close> model on rasters, in every cell where the four inputs hold
  data, the coefficient is \<open>1/360\<close> for fire type 1 or 2, \<open>0.0175\<close> for fire type 3 and
  0 otherwise; the raw height is \<open>a * intensity / wind\<close>, or the flame length where the
  wind speed is 0; the returned height is the flame length where the raw height exceeds
  it and the raw height elsewhere, so it never exceeds the flame length.
\<close>

theorem getFlameHeight_Nelson:
  assumes "fire_type p = Some t" "fire_intensity p = Some i" "midflame_ws p = Some w"
    "flame_length p = Some l"
  shows "\<exists>r. getFlameHeight ''Nelson'' (Ras flame_length) (Ras fire_type) (Ras fire_intensity)
            (Ras midflame_ws) flame_tilt slope_angle slope_units = Inr (Ras r)
         \<and> r p = Some (nelson_height t i w l) \<and> nelson_height t i w l \<le> l"
  using assms
  by (simp add: getFlameHeight_def op_defs div_cell_def truthval_def
      nelson_height_def nelson_raw_def nelson_a_def)

text \<open>A cell whose raw height 5 exceeds the flame length 3: the output is 3.\<close>

theorem getFlameHeight_Nelson_witness:
  "\<exists>r. getFlameHeight ''Nelson'' (Ras (\<lambda>p. Some 3)) (Ras (\<lambda>p. Some 1)) (Ras (\<lambda>p. Some 3600))
            (Ras (\<lambda>p. Some 2)) PyNone PyNone None = Inr (Ras r) \<and> r (0, 0) = Some 3"
  using getFlameHeight_Nelson [where fire_type = "\<lambda>p. Some 1" and p = "(0, 0)" and t = 1
      and fire_intensity = "\<lambda>p. Some 3600" and i = 3600 and midflame_ws = "\<lambda>p. Some 2"
      and w = 2 and flame_length = "\<lambda>p. Some 3" and l = 3 and flame_tilt = PyNone
      and slope_angle = PyNone and slope_units = None]
  by (simp add: nelson_height_def nelson_raw_def nelson_a_def)

subsection \<open>C3: unrecognized model names\<close>

text \<open>
  C3, as stated, has 27 recognized names for \<open>getFlameLength\<close>. No list of 27 names
  holds exactly the names the function accepts: it accepts 29.
\<close>

theorem recognized_names_not_27:
  "\<not> (\<exists>ks. length ks = 27 \<and>
        (\<forall>m. m \<in> set ks \<longleftrightarrow> getFlameLength m PyNone PyNone True \<noteq>
           Inl (PyException ''Unable to calculate flame length - Model choice is invalid'')))"
proof
  assume "\<exists>ks. length ks = 27 \<and>
        (\<forall>m. m \<in> set ks \<longleftrightarrow> getFlameLength m PyNone PyNone True \<noteq>
           Inl (PyException ''Unable to calculate flame length - Model choice is invalid''))"
  then obtain ks where len: "length ks = 27"
    and ks: "\<And>m. m \<in> set ks \<longleftrightarrow> getFlameLength m PyNone PyNone True \<noteq>
           Inl (PyException ''Unable to calculate flame length - Model choice is invalid'')"
    by blast
  have "set ks = dom (map_of model_dict)"
  proof (intro set_eqI iffI)
    fix m assume "m \<in> set ks"
    then show "m \<in> dom (map_of model_dict)"
      using ks getFlameLength_invalid [of m PyNone PyNone True]
      by (cases "map_of model_dict m") auto
  next
    fix m assume "m \<in> dom (map_of model_dict)"
    then obtain ps where "map_of model_dict m = Some ps" by auto
    from getFlameLength_valid [OF this] show "m \<in> set ks" using ks by simp
  qed
  then have "card (set ks) = 29" by (simp add: model_dict_card)
  moreover have "card (set ks) \<le> 27" using card_length [of ks] len by simp
  ultimately show False by simp
qed

text \<open>
  C3 (amended): the registry of \<open>getFlameLength\<close> has 29 keys. A name that is not one
  of them makes \<open>getFlameLength\<close> raise its invalid-model exception, a name other than
  \<open>Nelson\<close> and \<open>Finney\<close> makes \<open>getFlameHeight\<close> raise its own, and a name other than
  \<open>Standard\<close>, \<open>Finney\<close> and \<open>Butler\<close> makes \<open>getFlameTilt\<close> raise its own, whatever
  the other arguments; no result is produced. For a recognized name the function does
  not raise that exception.
\<close>

theorem invalid_model_names:
  "card (dom (map_of model_dict)) = 29 \<and>
   (map_of model_dict model = None \<longrightarrow>
      getFlameLength model fi fd po =
        Inl (PyException ''Unable to calculate flame length - Model choice is invalid'')) \<and>
   (map_of model_dict model \<noteq> None \<longrightarrow>
      getFlameLength model fi fd po \<noteq>
        Inl (PyException ''Unable to calculate flame length - Model choice is invalid'')) \<and>
   (model \<noteq> ''Nelson'' \<and> model \<noteq> ''Finney'' \<longrightarrow>
      getFlameHeight model fl ft fi mws tilt sa su =
        Inl (PyException ''Unable to calculate flame height - Model choice is invalid'')) \<and>
   (model = ''Nelson'' \<or> model = ''Finney'' \<longrightarrow>
      getFlameHeight model fl ft fi mws tilt sa su \<noteq>
        Inl (PyException ''Unable to calculate flame height - Model choice is invalid'')) \<and>
   (model \<noteq> ''Standard'' \<and> model \<noteq> ''Finney'' \<and> model \<noteq> ''Butler'' \<longrightarrow>
      getFlameTilt model fl fh sa su ws wu ch =
        Inl (PyException ''Unable to calculate flame tilt - Model choice is invalid'')) \<and>
   (model = ''Standard'' \<or> model = ''Finney'' \<or> model = ''Butler'' \<longrightarrow>
      getFlameTilt model fl fh sa su ws wu ch \<noteq>
        Inl (PyException ''Unable to calculate flame tilt - Model choice is invalid''))"
  using model_dict_card getFlameLength_invalid getFlameLength_valid getFlameHeight_invalid
    getFlameHeight_valid getFlameTilt_invalid getFlameTilt_valid
  by (intro conjI impI) auto

text \<open>An unknown name and a recognized name, for each of the three functions.\<close>

theorem invalid_model_names_witness:
  "getFlameLength ''Bogus'' PyNone PyNone False =
     Inl (PyException ''Unable to calculate flame length - Model choice is invalid'') \<and>
   getFlameLength ''Davies_HEAD'' PyNone PyNone False \<noteq>
     Inl (PyException ''Unable to calculate flame length - Model choice is invalid'') \<and>
   getFlameHeight ''Bogus'' PyNone PyNone PyNone PyNone PyNone PyNone None =
     Inl (PyException ''Unable to calculate flame height - Model choice is invalid'') \<and>
   getFlameHeight ''Finney'' PyNone PyNone PyNone PyNone PyNone PyNone None \<noteq>
     Inl (PyException ''Unable to calculate flame height - Model choice is invalid'') \<and>
   getFlameTilt ''Bogus'' PyNone PyNone PyNone None PyNone None PyNone =
     Inl (PyException ''Unable to calculate flame tilt - Model choice is invalid'') \<and>
   getFlameTilt ''Butler'' PyNone PyNone PyNone None PyNone None PyNone \<noteq>
     Inl (PyException ''Unable to calculate flame tilt - Model choice is invalid'')"
proof -
  have a: "map_of model_dict ''Bogus'' = None" "map_of model_dict ''Davies_HEAD'' \<noteq> None"
    by (simp_all add: model_dict_def)
  note inst = invalid_model_names [where fi = PyNone and fd = PyNone and po = False
      and fl = PyNone and ft = PyNone and mws = PyNone and tilt = PyNone and sa = PyNone
      and su = None and fh = PyNone and ws = PyNone and wu = None and ch = PyNone]
  from inst [where model = "''Bogus''"] inst [where model = "''Davies_HEAD''"]
    inst [where model = "''Finney''"] inst [where model = "''Butler''"] a
  show ?thesis by simp
qed

subsection \<open>C4: the flame tilt is never negative\<close>

text \<open>
  C4: whenever \<open>getFlameTilt\<close> returns, for any model and any input, the result is a
  raster that holds \<open>degrees(tilt_v)\<close> in every cell where the tilt relative to vertical
  is at least 0 and 0 in every cell where it is negative (and NoData where the tilt is
  NoData), so no cell is negative.
\<close>

theorem getFlameTilt_clamp:
  assumes "getFlameTilt model fl fh sa su ws wu ch = Inr r"
  shows "\<exists>tv g. tilt_v model fl fh sa su ws wu ch = Inr tv \<and> r = Ras g \<and>
     (\<forall>p. g p = (case cell_at tv p of None \<Rightarrow> None
                  | Some t \<Rightarrow> Some (if 0 \<le> t then t * 180 / pi else 0)) \<and>
          (\<forall>y. g p = Some y \<longrightarrow> 0 \<le> y))"
proof -
  from assms obtain tv where tv: "tilt_v model fl fh sa su ws wu ch = Inr tv"
    and con: "Con (py_ge (Inr tv) (num 0)) (getDegrees (Inr tv)) (num 0) = Inr r"
    by (cases "tilt_v model fl fh sa su ws wu ch") (auto simp: getFlameTilt_def)
  from clamp_step [OF con] obtain g where g: "r = Ras g"
    and gp: "\<And>p. g p = cell1 (\<lambda>t. Some (clamp_degrees t)) (cell_at tv p)"
    by blast
  have "g p = (case cell_at tv p of None \<Rightarrow> None
                  | Some t \<Rightarrow> Some (if 0 \<le> t then t * 180 / pi else 0)) \<and>
          (\<forall>y. g p = Some y \<longrightarrow> 0 \<le> y)" for p
    using clamp_degrees_nonneg
    by (cases "cell_at tv p") (auto simp: gp clamp_degrees_def)
  with tv g show ?thesis by blast
qed

text \<open>
  A raster of slopes of 100 degrees under a flame of height 0 gives the negative tilt
  \<open>pi/2 - 100 pi/180\<close>; the call returns 0.
\<close>

theorem getFlameTilt_clamp_witness:
  "getFlameTilt ''Finney'' (Num 1) (Num 0) (Ras (\<lambda>p. Some 100))
     (Some ''degrees'') PyNone None PyNone =
     Inr (Ras (\<lambda>p. Some 0)) \<and>
   (\<exists>tv. tilt_v ''Finney'' (Num 1) (Num 0) (Ras (\<lambda>p. Some 100))
     (Some ''degrees'') PyNone None PyNone =
       Inr tv \<and> cell_at tv (0, 0) = Some (pi / 2 - 100 * pi / 180))"
proof -
  have neg: "\<not> 0 \<le> pi / 2 - 100 * pi / 180"
    using pi_gt_zero by linarith
  have tv: "tilt_v ''Finney'' (Num 1) (Num 0) (Ras (\<lambda>p. Some 100))
     (Some ''degrees'') PyNone None PyNone =
       Inr (Ras (\<lambda>p. Some (pi / 2 - 100 * pi / 180)))"
    by (simp add: tilt_v_def op_defs getRadians_cases getDegrees_cases div_cell_def
        truthval_def asin_cell_def)
  have r: "getFlameTilt ''Finney'' (Num 1) (Num 0) (Ras (\<lambda>p. Some 100))
     (Some ''degrees'') PyNone None PyNone =
     Inr (Ras (\<lambda>p. Some 0))"
    using neg
    by (simp add: getFlameTilt_def tv op_defs getDegrees_cases truthval_def)
  from getFlameTilt_clamp [OF r] tv r show ?thesis
    by (auto simp: cell_at_def)
qed

subsection \<open>C5: scalars and constant grids\<close>

text \<open>
  C5 asks that a grid whose cells all hold \<open>v\<close> give, in every cell, what the scalar
  \<open>v\<close> gives. The \<open>Finney\<close> tilt model does not: it tests
  \<^verbatim>\<open>flame_height == flame_length\<close> with a Python \<^verbatim>\<open>if\<close>, which has a truth
  value for two numbers and none for the raster that comparing two rasters yields. Over
  a flat raster of slopes, the scalars 2 and 2 give 0 and the scalars 2 and 1 give 60
  degrees in every cell; the grids of the same values raise \<^verbatim>\<open>ValueError\<close>.
\<close>

theorem Finney_tilt_scalar_vs_grid:
  "getFlameTilt ''Finney'' (Num 2) (Num 2) (Ras (\<lambda>p. Some 0))
     (Some ''degrees'') PyNone None PyNone =
     Inr (Ras (\<lambda>p. Some 0)) \<and>
   getFlameTilt ''Finney'' (Ras (\<lambda>p. Some 2)) (Ras (\<lambda>p. Some 2)) (Ras (\<lambda>p. Some 0))
     (Some ''degrees'') PyNone None PyNone = Inl ValueError \<and>
   getFlameTilt ''Finney'' (Num 2) (Num 1) (Ras (\<lambda>p. Some 0))
     (Some ''degrees'') PyNone None PyNone =
     Inr (Ras (\<lambda>p. Some 60)) \<and>
   getFlameTilt ''Finney'' (Ras (\<lambda>p. Some 2)) (Ras (\<lambda>p. Some 1)) (Ras (\<lambda>p. Some 0))
     (Some ''degrees'') PyNone None PyNone = Inl ValueError"
proof -
  have "arcsin (sin (pi / 6)) = pi / 6"
    using pi_gt_zero by (intro arcsin_sin) simp_all
  then have a: "arcsin (1 / 2) = pi / 6" by (simp add: sin_30)
  show ?thesis
    using a
    by (simp add: getFlameTilt_def tilt_v_def op_defs getRadians_cases getDegrees_cases
      div_cell_def truthval_def asin_cell_def)
qed

subsection \<open>C6: canopy height 0 in the mid-flame wind speed\<close>

text \<open>
  C6: on rasters, in a cell with wind speed \<open>w\<close>, canopy cover \<open>c\<close> and canopy height
  \<open>h \<ge> 0\<close>, \<open>getMidFlameWS\<close> returns the value of the specification's steps in their
  order: the crown ratio is taken from the height itself (0 where it is 0), and only then
  is a height of 0 replaced by \<open>0.5 * 3.28084\<close> for the logarithm and the division. Hence
  where the canopy height is 0 the output is
  \<open>windspeed * 1.83 / ln ((20 + 0.36 h0) / (0.13 h0))\<close> with \<open>h0 = 0.5 * 3.28084\<close>,
  whatever the canopy cover and the base height; \<open>windspeed\<close> is the wind speed after
  the conversion of its unit.
\<close>

theorem getMidFlameWS_zero_height:
  assumes "windspeed p = Some w" "canopy_cover p = Some c" "canopy_ht p = Some h" "0 \<le> h"
  shows "\<exists>r. getMidFlameWS (Ras windspeed) (Ras canopy_cover) (Ras canopy_ht)
               (Ras canopy_baseht) units = Inr (Ras r) \<and>
     (h = 0 \<longrightarrow> r p = Some (spec_windspeed units w * 1.83 / log_term (0.5 * 3.28084))) \<and>
     (\<forall>b. canopy_baseht p = Some b \<longrightarrow>
        r p = Some (midflame_spec (spec_windspeed units w) c
                      (spec_height units h) (spec_height units b)))"
proof -
  consider (si) "units = ''SI''" | (imp) "units = ''IMP''"
    | (other) "units \<noteq> ''SI''" "units \<noteq> ''IMP''"
    by blast
  then show ?thesis
  proof cases
    case si
    let ?ws = "\<lambda>p. cell2 div_cell (windspeed p) (Some (3.6 * 1.15))"
    let ?ht = "\<lambda>p. cell2 (\<lambda>x y. Some (x * y)) (canopy_ht p) (Some 3.28084)"
    let ?bh = "\<lambda>p. cell2 (\<lambda>x y. Some (x * y)) (canopy_baseht p) (Some 3.28084)"
    have a: "?ws p = Some (w / 4.14)" "?ht p = Some (h * 3.28084)" "0 \<le> h * 3.28084"
      using assms by (simp_all add: div_cell_def)
    have z: "h * 3.28084 = 0 \<longleftrightarrow> h = 0" by simp
    have b: "?bh p = Some (b * 3.28084)" if "canopy_baseht p = Some b" for b
      using that by simp
    from wind_reduction_cell [of ?ws p "w / 4.14" canopy_cover c ?ht "h * 3.28084" ?bh,
        OF a(1) assms(2) a(2) a(3)]
    show ?thesis
      using b z
      by (auto simp: getMidFlameWS_def convert_units_SI si spec_windspeed_def spec_height_def)
  next
    case imp
    let ?ws = "\<lambda>p. cell2 div_cell (windspeed p) (Some 2.23694)"
    have a: "?ws p = Some (w / 2.23694)"
      using assms by (simp_all add: div_cell_def)
    from wind_reduction_cell [of ?ws p "w / 2.23694" canopy_cover c canopy_ht h canopy_baseht,
        OF a assms(2) assms(3) assms(4)]
    show ?thesis
      by (simp add: getMidFlameWS_def convert_units_IMP imp spec_windspeed_def spec_height_def)
  next
    case other
    from wind_reduction_cell [of windspeed p w canopy_cover c canopy_ht h canopy_baseht,
        OF assms]
    show ?thesis
      by (simp add: getMidFlameWS_def convert_units_other other spec_windspeed_def
          spec_height_def)
  qed
qed

text \<open>A cell of canopy height 0 under a wind of 10 km/h, in SI units.\<close>

theorem getMidFlameWS_zero_height_witness:
  "\<exists>r. getMidFlameWS (Ras (\<lambda>p. Some 10)) (Ras (\<lambda>p. Some 50)) (Ras (\<lambda>p. Some 0))
         (Ras (\<lambda>p. Some 2)) ''SI'' = Inr (Ras r) \<and>
       r (0, 0) =
         Some (10 / 4.14 * 1.83 / ln ((20 + 0.36 * (0.5 * 3.28084)) / (0.13 * (0.5 * 3.28084))))"
  using getMidFlameWS_zero_height [where windspeed = "\<lambda>p. Some 10" and p = "(0, 0)"
      and w = 10 and canopy_cover = "\<lambda>p. Some 50" and c = 50 and canopy_ht = "\<lambda>p. Some 0"
      and h = 0 and canopy_baseht = "\<lambda>p. Some 2" and units = "''SI''"]
  by (auto simp: spec_windspeed_def log_term_def)

subsection \<open>C7: an unrecognized unit in the mid-flame wind speed\<close>

text \<open>
  C7: with a \<open>units\<close> string other than \<open>SI\<close> and \<open>IMP\<close>, \<open>getMidFlameWS\<close> converts
  nothing: the call is the wind reduction of lines 54 to 64 on the inputs as given. On
  rasters it raises no exception and returns a raster that holds, in every cell with data
  and a non-negative canopy height, the value of the specification's formula on the raw
  values.
\<close>

theorem getMidFlameWS_unknown_units:
  assumes "units \<noteq> ''SI''" "units \<noteq> ''IMP''"
  shows "getMidFlameWS windspeed canopy_cover canopy_ht canopy_baseht units =
           wind_reduction windspeed canopy_cover canopy_ht canopy_baseht \<and>
     (\<exists>r. getMidFlameWS (Ras ws) (Ras cc) (Ras ht) (Ras bh) units = Inr (Ras r) \<and>
        (\<forall>w c h b. ws p = Some w \<and> cc p = Some c \<and> ht p = Some h \<and> bh p = Some b \<and> 0 \<le> h
           \<longrightarrow> r p = Some (midflame_spec w c h b)))"
proof -
  have eq: "getMidFlameWS a b c d units = wind_reduction a b c d" for a b c d
    using assms by (simp add: getMidFlameWS_def convert_units_other)
  obtain r where r: "wind_reduction (Ras ws) (Ras cc) (Ras ht) (Ras bh) = Inr (Ras r)"
    using wind_reduction_returns by blast
  have "r p = Some (midflame_spec w c h b)"
    if "ws p = Some w" "cc p = Some c" "ht p = Some h" "bh p = Some b" "0 \<le> h" for w c h b
    using wind_reduction_cell [of ws p w cc c ht h bh, OF that(1) that(2) that(3) that(5)]
      r that(4) by auto
  with r eq show ?thesis by auto
qed

text \<open>The unit \<open>metric\<close> is neither: the inputs are used as they are.\<close>

theorem getMidFlameWS_unknown_units_witness:
  "getMidFlameWS (Ras (\<lambda>p. Some 10)) (Ras (\<lambda>p. Some 50)) (Ras (\<lambda>p. Some 0))
         (Ras (\<lambda>p. Some 2)) ''metric'' =
     wind_reduction (Ras (\<lambda>p. Some 10)) (Ras (\<lambda>p. Some 50)) (Ras (\<lambda>p. Some 0))
         (Ras (\<lambda>p. Some 2)) \<and>
   (\<exists>r. getMidFlameWS (Ras (\<lambda>p. Some 10)) (Ras (\<lambda>p. Some 50)) (Ras (\<lambda>p. Some 0))
         (Ras (\<lambda>p. Some 2)) ''metric'' = Inr (Ras r) \<and>
       r (0, 0) = Some (midflame_spec 10 50 0 2))"
  using getMidFlameWS_unknown_units [where units = "''metric''"
      and windspeed = "Ras (\<lambda>p. Some 10)" and canopy_cover = "Ras (\<lambda>p. Some 50)"
      and canopy_ht = "Ras (\<lambda>p. Some 0)" and canopy_baseht = "Ras (\<lambda>p. Some 2)"
      and ws = "\<lambda>p. Some 10" and cc = "\<lambda>p. Some 50" and ht = "\<lambda>p. Some 0"
      and bh = "\<lambda>p. Some 2" and p = "(0, 0)"]
  by (auto; metis)

subsection \<open>C8: the parameters the Butler model requires\<close>

text \<open>
  C8: with model \<open>Butler\<close>, \<open>getFlameTilt\<close> raises its missing-parameter exception
  whenever one of \<open>windspeed\<close>, \<open>windspeed_units\<close> and \<open>canopy_ht\<close> is \<^verbatim>\<open>None\<close>,
  whichever it is, and does not raise it when the three are present.
\<close>

theorem Butler_missing_parameter:
  "(windspeed = PyNone \<or> windspeed_units = None \<or> canopy_ht = PyNone \<longrightarrow>
      getFlameTilt ''Butler'' fl fh sa su windspeed windspeed_units canopy_ht =
        Inl (PyException butler_missing)) \<and>
   (windspeed \<noteq> PyNone \<and> windspeed_units \<noteq> None \<and> canopy_ht \<noteq> PyNone \<longrightarrow>
      getFlameTilt ''Butler'' fl fh sa su windspeed windspeed_units canopy_ht \<noteq>
        Inl (PyException butler_missing))"
proof (intro conjI impI)
  assume "windspeed = PyNone \<or> windspeed_units = None \<or> canopy_ht = PyNone"
  then show "getFlameTilt ''Butler'' fl fh sa su windspeed windspeed_units canopy_ht =
        Inl (PyException butler_missing)"
    by (auto simp: getFlameTilt_def tilt_v_def)
next
  assume present: "windspeed \<noteq> PyNone \<and> windspeed_units \<noteq> None \<and> canopy_ht \<noteq> PyNone"
  have "tilt_v ''Butler'' fl fh sa su windspeed windspeed_units canopy_ht \<noteq>
        Inl (PyException butler_missing)"
    using present unfolding tilt_v_def
    by (simp; intro no_exc conjI impI)
  then show "getFlameTilt ''Butler'' fl fh sa su windspeed windspeed_units canopy_ht \<noteq>
        Inl (PyException butler_missing)"
    unfolding getFlameTilt_def by (intro no_exc)
qed

text \<open>Each of the three omitted in turn, then none omitted.\<close>

theorem Butler_missing_parameter_witness:
  "getFlameTilt ''Butler'' PyNone PyNone PyNone None (Ras (\<lambda>p. Some 20)) (Some ''kph'') PyNone =
     Inl (PyException butler_missing) \<and>
   getFlameTilt ''Butler'' PyNone PyNone PyNone None (Ras (\<lambda>p. Some 20)) None (Ras (\<lambda>p. Some 15)) =
     Inl (PyException butler_missing) \<and>
   getFlameTilt ''Butler'' PyNone PyNone PyNone None PyNone (Some ''kph'') (Ras (\<lambda>p. Some 15)) =
     Inl (PyException butler_missing) \<and>
   getFlameTilt ''Butler'' PyNone PyNone PyNone None (Ras (\<lambda>p. Some 20)) (Some ''kph'')
       (Ras (\<lambda>p. Some 15)) \<noteq> Inl (PyException butler_missing)"
proof -
  note inst = Butler_missing_parameter [where fl = PyNone and fh = PyNone and sa = PyNone
      and su = None]
  from inst [where windspeed = "Ras (\<lambda>p. Some 20)" and windspeed_units = "Some ''kph''"
        and canopy_ht = PyNone]
    inst [where windspeed = "Ras (\<lambda>p. Some 20)" and windspeed_units = None
        and canopy_ht = "Ras (\<lambda>p. Some 15)"]
    inst [where windspeed = PyNone and windspeed_units = "Some ''kph''"
        and canopy_ht = "Ras (\<lambda>p. Some 15)"]
    inst [where windspeed = "Ras (\<lambda>p. Some 20)" and windspeed_units = "Some ''kph''"
        and canopy_ht = "Ras (\<lambda>p. Some 15)"]
  show ?thesis by simp
qed

subsection \<open>C9: slope units\<close>

text \<open>
  C9: with model \<open>Finney\<close>, a \<open>slope_units\<close> that is neither \<open>percent\<close> nor
  \<open>degrees\<close> (\<^verbatim>\<open>None\<close> included) makes \<open>getFlameHeight\<close> and \<open>getFlameTilt\<close> raise
  their invalid-unit exception, whatever the other arguments. With \<open>percent\<close> the slope in
  radians is \<open>arctan (slope / 100)\<close> and with \<open>degrees\<close> it is \<open>slope * pi / 180\<close>:
  the flame height on rasters, and the flame tilt of a flame of height \<open>h\<close> and length
  \<open>l \<noteq> h\<close> over a raster of slopes, are the specification's formulas on that angle.
\<close>

theorem Finney_slope_units:
  "(su \<noteq> Some ''percent'' \<and> su \<noteq> Some ''degrees'' \<longrightarrow>
      getFlameHeight ''Finney'' flame_length ft fi mws flame_tilt slope_angle su =
        Inl (PyException ''Unable to calculate flame height - Slope tilt'') \<and>
      getFlameTilt ''Finney'' flame_length flame_height slope_angle su ws wu ch =
        Inl (PyException ''Unable to calculate flame tilt - Invalid slope units provided'')) \<and>
   (u = ''percent'' \<or> u = ''degrees'' \<longrightarrow>
      (\<exists>r. getFlameHeight ''Finney'' (Ras fl) ft fi mws (Ras tilt) (Ras slope) (Some u) =
             Inr (Ras r) \<and>
         (\<forall>l t s. fl p = Some l \<and> tilt p = Some t \<and> slope p = Some s \<and>
             (s \<le> 1 \<or> sin (90 * pi / 180 - slope_radians u s) \<noteq> 0) \<longrightarrow>
             r p = Some (finney_height u l t s))) \<and>
      (h \<noteq> l \<longrightarrow>
         (\<exists>r. getFlameTilt ''Finney'' (Num l) (Num h) (Ras slope) (Some u) ws wu ch =
                Inr (Ras r) \<and>
            (\<forall>s. slope p = Some s \<and> l \<noteq> 0 \<and>
                - 1 \<le> finney_ratio u h l s \<and> finney_ratio u h l s \<le> 1 \<longrightarrow>
                r p = Some (clamp_degrees (finney_tilt_v u h l s))))))"
proof (intro conjI impI)
  assume "su \<noteq> Some ''percent'' \<and> su \<noteq> Some ''degrees''"
  then show "getFlameHeight ''Finney'' flame_length ft fi mws flame_tilt slope_angle su =
        Inl (PyException ''Unable to calculate flame height - Slope tilt'')"
    and "getFlameTilt ''Finney'' flame_length flame_height slope_angle su ws wu ch =
        Inl (PyException ''Unable to calculate flame tilt - Invalid slope units provided'')"
    by (simp_all add: getFlameHeight_def getFlameTilt_def tilt_v_def)
next
  assume u: "u = ''percent'' \<or> u = ''degrees''"
  obtain r where r: "getFlameHeight ''Finney'' (Ras fl) ft fi mws (Ras tilt) (Ras slope) (Some u) =
             Inr (Ras r)"
    using finney_height_returns [OF u] by blast
  have "r p = Some (finney_height u l t s)"
    if "fl p = Some l" "tilt p = Some t" "slope p = Some s"
      "s \<le> 1 \<or> sin (90 * pi / 180 - slope_radians u s) \<noteq> 0" for l t s
    using finney_height_cell [of u fl p l tilt t slope s ft fi mws, OF u that] r by auto
  with r show "\<exists>r. getFlameHeight ''Finney'' (Ras fl) ft fi mws (Ras tilt) (Ras slope) (Some u) =
             Inr (Ras r) \<and>
         (\<forall>l t s. fl p = Some l \<and> tilt p = Some t \<and> slope p = Some s \<and>
             (s \<le> 1 \<or> sin (90 * pi / 180 - slope_radians u s) \<noteq> 0) \<longrightarrow>
             r p = Some (finney_height u l t s))"
    by auto
next
  assume u: "u = ''percent'' \<or> u = ''degrees''" and hl: "h \<noteq> l"
  obtain r where r: "getFlameTilt ''Finney'' (Num l) (Num h) (Ras slope) (Some u) ws wu ch =
                Inr (Ras r)"
    using finney_tilt_returns [OF u hl] by blast
  have "r p = Some (clamp_degrees (finney_tilt_v u h l s))"
    if "slope p = Some s" "l \<noteq> 0" "- 1 \<le> finney_ratio u h l s" "finney_ratio u h l s \<le> 1"
    for s
    using finney_tilt_cell [of u h l slope p s ws wu ch, OF u hl that] r by auto
  with r show "\<exists>r. getFlameTilt ''Finney'' (Num l) (Num h) (Ras slope) (Some u) ws wu ch =
                Inr (Ras r) \<and>
            (\<forall>s. slope p = Some s \<and> l \<noteq> 0 \<and>
                - 1 \<le> finney_ratio u h l s \<and> finney_ratio u h l s \<le> 1 \<longrightarrow>
                r p = Some (clamp_degrees (finney_tilt_v u h l s)))"
    by auto
qed

text \<open>
  No unit and the unit \<open>radians\<close> raise; a slope of 100 percent under a vertical flame
  of length 2 gives the height 2; a slope of 100 degrees gives the tilt 0.
\<close>

theorem Finney_slope_units_witness:
  "getFlameHeight ''Finney'' PyNone PyNone PyNone PyNone PyNone PyNone None =
     Inl (PyException ''Unable to calculate flame height - Slope tilt'') \<and>
   getFlameTilt ''Finney'' PyNone PyNone PyNone (Some ''radians'') PyNone None PyNone =
     Inl (PyException ''Unable to calculate flame tilt - Invalid slope units provided'') \<and>
   (\<exists>r. getFlameHeight ''Finney'' (Ras (\<lambda>p. Some 2)) PyNone PyNone PyNone (Ras (\<lambda>p. Some 0))
          (Ras (\<lambda>p. Some 100)) (Some ''percent'') = Inr (Ras r) \<and>
        r (0, 0) = Some 2) \<and>
   (\<exists>r. getFlameTilt ''Finney'' (Num 1) (Num 0) (Ras (\<lambda>p. Some 100)) (Some ''degrees'')
          PyNone None PyNone = Inr (Ras r) \<and> r (0, 0) = Some 0)"
proof -
  have c: "sin (pi / 2 - arctan 1) = cos (arctan (1::real))"
    using cos_sin_eq [of "arctan (1::real)"] by simp
  then have s0: "sin (pi / 2 - arctan (1::real)) \<noteq> 0"
    by simp
  then have s: "sin (90 * pi / 180 - slope_radians ''percent'' 100) \<noteq> 0"
    by (simp add: slope_radians_def)
  have neg: "\<not> 0 \<le> pi / 2 - 100 * pi / 180"
    using pi_gt_zero by linarith
  note inst = Finney_slope_units [where flame_length = PyNone and ft = PyNone
        and fi = PyNone and mws = PyNone and flame_tilt = PyNone and slope_angle = PyNone
        and flame_height = PyNone and ws = PyNone and wu = None and ch = PyNone
        and fl = "\<lambda>p. Some 2" and tilt = "\<lambda>p. Some 0"
        and slope = "\<lambda>p. Some 100" and p = "(0, 0)" and h = 0 and l = 1]
  from inst [where su = None and u = "''percent''"]
    inst [where su = "Some ''radians''" and u = "''degrees''"]
    s s0 neg
  show ?thesis
    by (simp add: finney_height_def finney_ratio_def finney_tilt_v_def clamp_degrees_def
        slope_radians_def)
qed

subsection \<open>C10: an unrecognized wind-speed unit in the Butler model\<close>

text \<open>
  C10: with model \<open>Butler\<close>, a \<open>windspeed_units\<close> other than \<open>kph\<close> and \<open>mph\<close> gives
  what \<open>mps\<close> gives, on every input. On rasters no error is raised, and in a cell with
  wind speed \<open>w \<ge> 0\<close> and canopy height \<open>c > 0\<close> the tilt is that of the canopy-top wind
  speed \<open>w / (3.6 * (1 + ln (1 + 28 / c)))\<close> of the unconverted wind speed, in degrees.
\<close>

theorem Butler_unknown_units:
  assumes "wu \<noteq> ''kph''" "wu \<noteq> ''mph''"
  shows "getFlameTilt ''Butler'' fl fh sa su windspeed (Some wu) canopy_ht =
           getFlameTilt ''Butler'' fl fh sa su windspeed (Some ''mps'') canopy_ht \<and>
     (\<exists>r. getFlameTilt ''Butler'' fl fh sa su (Ras ws) (Some wu) (Ras ch) = Inr (Ras r) \<and>
        (\<forall>w c. ws p = Some w \<and> ch p = Some c \<and> 0 \<le> w \<and> 0 < c \<longrightarrow>
           r p = Some (butler_tilt w c * 180 / pi)))"
proof -
  have eq: "getFlameTilt ''Butler'' fl fh sa su windspeed (Some wu) canopy_ht =
           getFlameTilt ''Butler'' fl fh sa su windspeed (Some ''mps'') canopy_ht"
    using assms by (simp add: getFlameTilt_def tilt_v_def)
  obtain r where r: "getFlameTilt ''Butler'' fl fh sa su (Ras ws) (Some wu) (Ras ch) = Inr (Ras r)"
    using butler_returns by blast
  have "r p = Some (butler_tilt w c * 180 / pi)"
    if "ws p = Some w" "ch p = Some c" "0 \<le> w" "0 < c" for w c
    using butler_cell [of ws p w ch c wu fl fh sa su, OF that assms] r by auto
  with eq r show ?thesis by auto
qed

text \<open>The unit \<open>knots\<close> is read as metres per second.\<close>

theorem Butler_unknown_units_witness:
  "getFlameTilt ''Butler'' PyNone PyNone PyNone None (Ras (\<lambda>p. Some 20)) (Some ''knots'')
       (Ras (\<lambda>p. Some 15)) =
   getFlameTilt ''Butler'' PyNone PyNone PyNone None (Ras (\<lambda>p. Some 20)) (Some ''mps'')
       (Ras (\<lambda>p. Some 15)) \<and>
   (\<exists>r. getFlameTilt ''Butler'' PyNone PyNone PyNone None (Ras (\<lambda>p. Some 20)) (Some ''knots'')
       (Ras (\<lambda>p. Some 15)) = Inr (Ras r) \<and> r (0, 0) = Some (butler_tilt 20 15 * 180 / pi))"
  using Butler_unknown_units [where wu = "''knots''" and fl = PyNone and fh = PyNone
      and sa = PyNone and su = None and windspeed = "Ras (\<lambda>p. Some 20)"
      and canopy_ht = "Ras (\<lambda>p. Some 15)" and ws = "\<lambda>p. Some 20" and ch = "\<lambda>p. Some 15"
      and p = "(0, 0)"]
  by (auto; metis)

end
